theory Spec2Isabelle
  imports Main "HOL-Library.Word" "HOL-Library.Monad_Syntax"
begin

unbundle bit_operations_syntax

section \<open>The STM32F7 flash driver (lib/stm32/f7/flash.c)\<close>

text \<open>
  The driver has no state of its own: every statement is a volatile access to a register of
  the flash controller, a memory-mapped store into the flash array, or a data-synchronisation
  barrier. The embedding therefore runs each driver function against a machine (the
  hardware, an arbitrary state machine answering the accesses) and records the accesses in
  program order. The two polling loops of the source may spin forever; they are partial
  functions into \<open>option\<close>, where \<open>None\<close> means that the call never returns.
\<close>

subsection \<open>Registers, accesses and the machine\<close>

type_synonym u8 = "8 word"
type_synonym u16 = "16 word"
type_synonym u32 = "32 word"
type_synonym u64 = "64 word"

text \<open>The registers the driver names (the macros \<open>FLASH_ACR\<close>, \<open>FLASH_CR\<close>, ...).\<close>

datatype reg = FLASH_ACR | FLASH_KEYR | FLASH_OPTKEYR | FLASH_SR | FLASH_CR | FLASH_OPTCR

text \<open>The datum of a store through \<open>MMIO8\<close>, \<open>MMIO16\<close>, \<open>MMIO32\<close> or \<open>MMIO64\<close>.\<close>

datatype datum = D8 u8 | D16 u16 | D32 u32 | D64 u64

text \<open>
  One observable access: the barrier instruction, a register read with the value the
  hardware returned, a register write, a store of a datum at an address.
\<close>

datatype access = Dsb | Rd reg u32 | Wr reg u32 | St u32 datum

text \<open>
  The hardware: how it answers a read (a volatile read may change the hardware state, for
  instance time passes and the busy flag drops), and how a write, a store and the barrier
  act on it.
\<close>

record 'h machine =
  reg_read :: "reg \<Rightarrow> 'h \<Rightarrow> u32 \<times> 'h"
  reg_write :: "reg \<Rightarrow> u32 \<Rightarrow> 'h \<Rightarrow> 'h"
  mem_store :: "u32 \<Rightarrow> datum \<Rightarrow> 'h \<Rightarrow> 'h"
  barrier :: "'h \<Rightarrow> 'h"

text \<open>The state threaded through the driver: the hardware and the accesses made so far.\<close>

record 'h st =
  hw :: 'h
  trace :: "access list"

definition rd :: "'h machine \<Rightarrow> reg \<Rightarrow> 'h st \<Rightarrow> u32 \<times> 'h st" where
  "rd H r s =
     (case reg_read H r (hw s) of (v, h) \<Rightarrow> (v, \<lparr>hw = h, trace = trace s @ [Rd r v]\<rparr>))"

definition wr :: "'h machine \<Rightarrow> reg \<Rightarrow> u32 \<Rightarrow> 'h st \<Rightarrow> 'h st" where
  "wr H r v s = \<lparr>hw = reg_write H r v (hw s), trace = trace s @ [Wr r v]\<rparr>"

definition mmio :: "'h machine \<Rightarrow> u32 \<Rightarrow> datum \<Rightarrow> 'h st \<Rightarrow> 'h st" where
  "mmio H a d s = \<lparr>hw = mem_store H a d (hw s), trace = trace s @ [St a d]\<rparr>"

text \<open>The C statements \<open>REG |= x\<close> and \<open>REG &= x\<close> on a volatile register: read, then write.\<close>

definition reg_or_assign :: "'h machine \<Rightarrow> reg \<Rightarrow> u32 \<Rightarrow> 'h st \<Rightarrow> 'h st" where
  "reg_or_assign H r x s = (case rd H r s of (v, s') \<Rightarrow> wr H r (v OR x) s')"

definition reg_and_assign :: "'h machine \<Rightarrow> reg \<Rightarrow> u32 \<Rightarrow> 'h st \<Rightarrow> 'h st" where
  "reg_and_assign H r x s = (case rd H r s of (v, s') \<Rightarrow> wr H r (v AND x) s')"

subsection \<open>The header constants\<close>

text \<open>
  The header \<open>libopencm3/stm32/flash.h\<close> is not part of the sources at hand. The masks,
  bits and shifts it defines are a parameter of every driver function below; the field
  names are the macro names.
\<close>

record flash_h =
  FLASH_ACR_LATENCY_MASK :: u32
  FLASH_CR_LOCK :: u32
  FLASH_CR_STRT :: u32
  FLASH_CR_MER :: u32
  FLASH_CR_SER :: u32
  FLASH_CR_PG :: u32
  FLASH_CR_SNB_MASK :: u32
  FLASH_CR_SNB_SHIFT :: nat
  FLASH_CR_PROGRAM_MASK :: u32
  FLASH_CR_PROGRAM_SHIFT :: nat
  FLASH_SR_BSY :: u32
  FLASH_SR_ERSERR :: u32
  FLASH_SR_PGPERR :: u32
  FLASH_SR_PGAERR :: u32
  FLASH_SR_WRPERR :: u32
  FLASH_SR_EOP :: u32
  FLASH_OPTCR_OPTSTRT :: u32
  FLASH_OPTCR_OPTLOCK :: u32

text \<open>
  Modelled from the spec: the key constants and the program-width encodings of the missing
  header, as section 6 of the specification lists them (program/erase keys \<open>0x45670123\<close>,
  \<open>0xCDEF89AB\<close>; option-byte keys \<open>0x08192A3B\<close>, \<open>0x4C5D6E7F\<close>; widths
  \<open>0b00 = x8\<close>, \<open>0b01 = x16\<close>, \<open>0b10 = x32\<close>, \<open>0b11 = x64\<close>).
\<close>

definition FLASH_KEYR_KEY1 :: u32 where "FLASH_KEYR_KEY1 = 0x45670123"
definition FLASH_KEYR_KEY2 :: u32 where "FLASH_KEYR_KEY2 = 0xCDEF89AB"

definition FLASH_CR_PROGRAM_X8 :: u32 where "FLASH_CR_PROGRAM_X8 = 0"
definition FLASH_CR_PROGRAM_X16 :: u32 where "FLASH_CR_PROGRAM_X16 = 1"
definition FLASH_CR_PROGRAM_X32 :: u32 where "FLASH_CR_PROGRAM_X32 = 2"
definition FLASH_CR_PROGRAM_X64 :: u32 where "FLASH_CR_PROGRAM_X64 = 3"

text \<open>
  Modelled from the spec: the missing header instantiated for the STM32F7 part, used
  wherever a concrete run is evaluated. The specification names the fields but not their
  positions; the positions are those of the reference manual RM0385 that the source cites:
  the latency field is bits 3:0 of the access-control register; in the control register
  PG, SER and MER are bits 0, 1 and 2, the sector number is the five bits from bit 3, the
  program size is the two bits from bit 8, STRT is bit 16 and LOCK is bit 31; in the status
  register EOP is bit 0, WRPERR, PGAERR, PGPERR and ERSERR are bits 4 to 7 and BSY is bit
  16; OPTLOCK and OPTSTRT are the low two bits of the option-control register.
\<close>

definition stm32f7 :: flash_h where
  "stm32f7 = \<lparr>
     FLASH_ACR_LATENCY_MASK = 0x0F,
     FLASH_CR_LOCK = 0x80000000,
     FLASH_CR_STRT = 0x10000,
     FLASH_CR_MER = 0x4,
     FLASH_CR_SER = 0x2,
     FLASH_CR_PG = 0x1,
     FLASH_CR_SNB_MASK = 0x1F,
     FLASH_CR_SNB_SHIFT = 3,
     FLASH_CR_PROGRAM_MASK = 0x3,
     FLASH_CR_PROGRAM_SHIFT = 8,
     FLASH_SR_BSY = 0x10000,
     FLASH_SR_ERSERR = 0x80,
     FLASH_SR_PGPERR = 0x40,
     FLASH_SR_PGAERR = 0x20,
     FLASH_SR_WRPERR = 0x10,
     FLASH_SR_EOP = 0x1,
     FLASH_OPTCR_OPTSTRT = 0x2,
     FLASH_OPTCR_OPTLOCK = 0x1 \<rparr>"

subsection \<open>The driver functions\<close>

text \<open>
  Each function takes the header constants \<open>K\<close>, the machine \<open>H\<close> and the state, and
  returns the state after its last statement. The statements appear in the order of the
  source.
\<close>

definition flash_set_program_size :: "flash_h \<Rightarrow> 'h machine \<Rightarrow> u32 \<Rightarrow> 'h st \<Rightarrow> 'h st" where
  "flash_set_program_size K H psize s =
     (let s = reg_and_assign H FLASH_CR
                (NOT (push_bit (FLASH_CR_PROGRAM_SHIFT K) (FLASH_CR_PROGRAM_MASK K))) s
      in reg_or_assign H FLASH_CR (push_bit (FLASH_CR_PROGRAM_SHIFT K) psize) s)"

text \<open>\<^verbatim>\<open>__asm__ volatile("dsb":::"memory");\<close>\<close>

definition flash_pipeline_stall :: "'h machine \<Rightarrow> 'h st \<Rightarrow> 'h st" where
  "flash_pipeline_stall H s = \<lparr>hw = barrier H (hw s), trace = trace s @ [Dsb]\<rparr>"

text \<open>The loop \<^verbatim>\<open>while ((FLASH_ACR & FLASH_ACR_LATENCY_MASK) != ws);\<close> of \<open>flash_set_ws\<close>.\<close>

partial_function (option) flash_set_ws_loop ::
  "flash_h \<Rightarrow> 'h machine \<Rightarrow> u32 \<Rightarrow> 'h st \<Rightarrow> 'h st option" where
  "flash_set_ws_loop K H ws s =
     (case rd H FLASH_ACR s of
        (v, s') \<Rightarrow>
          if v AND FLASH_ACR_LATENCY_MASK K \<noteq> ws then flash_set_ws_loop K H ws s'
          else Some s')"

declare flash_set_ws_loop.simps [code]

definition flash_set_ws :: "flash_h \<Rightarrow> 'h machine \<Rightarrow> u32 \<Rightarrow> 'h st \<Rightarrow> 'h st option" where
  "flash_set_ws K H ws s =
     (let (reg32, s) = rd H FLASH_ACR s;
          reg32 = reg32 AND NOT (FLASH_ACR_LATENCY_MASK K);
          reg32 = reg32 OR ws;
          s = wr H FLASH_ACR reg32 s
      in flash_set_ws_loop K H ws s)"

definition flash_unlock :: "flash_h \<Rightarrow> 'h machine \<Rightarrow> 'h st \<Rightarrow> 'h st" where
  "flash_unlock K H s =
     (let s = reg_or_assign H FLASH_CR (FLASH_CR_LOCK K) s;
          s = wr H FLASH_KEYR FLASH_KEYR_KEY1 s
      in wr H FLASH_KEYR FLASH_KEYR_KEY2 s)"

definition flash_clear_pgperr_flag :: "flash_h \<Rightarrow> 'h machine \<Rightarrow> 'h st \<Rightarrow> 'h st" where
  "flash_clear_pgperr_flag K H s = reg_or_assign H FLASH_SR (FLASH_SR_PGPERR K) s"

definition flash_clear_eop_flag :: "flash_h \<Rightarrow> 'h machine \<Rightarrow> 'h st \<Rightarrow> 'h st" where
  "flash_clear_eop_flag K H s = reg_or_assign H FLASH_SR (FLASH_SR_EOP K) s"

text \<open>
  The loop \<^verbatim>\<open>while ((FLASH_SR & FLASH_SR_BSY) == FLASH_SR_BSY);\<close> of
  \<open>flash_wait_for_last_operation\<close>.
\<close>

partial_function (option) flash_wait_loop ::
  "flash_h \<Rightarrow> 'h machine \<Rightarrow> 'h st \<Rightarrow> 'h st option" where
  "flash_wait_loop K H s =
     (case rd H FLASH_SR s of
        (v, s') \<Rightarrow>
          if v AND FLASH_SR_BSY K = FLASH_SR_BSY K then flash_wait_loop K H s'
          else Some s')"

declare flash_wait_loop.simps [code]

definition flash_wait_for_last_operation ::
  "flash_h \<Rightarrow> 'h machine \<Rightarrow> 'h st \<Rightarrow> 'h st option" where
  "flash_wait_for_last_operation K H s =
     (let s = flash_pipeline_stall H s in flash_wait_loop K H s)"


definition flash_clear_erserr_flag :: "flash_h \<Rightarrow> 'h machine \<Rightarrow> 'h st \<Rightarrow> 'h st" where
  "flash_clear_erserr_flag K H s = reg_or_assign H FLASH_SR (FLASH_SR_ERSERR K) s"

definition flash_clear_pgaerr_flag :: "flash_h \<Rightarrow> 'h machine \<Rightarrow> 'h st \<Rightarrow> 'h st" where
  "flash_clear_pgaerr_flag K H s = reg_or_assign H FLASH_SR (FLASH_SR_PGAERR K) s"

definition flash_clear_wrperr_flag :: "flash_h \<Rightarrow> 'h machine \<Rightarrow> 'h st \<Rightarrow> 'h st" where
  "flash_clear_wrperr_flag K H s = reg_or_assign H FLASH_SR (FLASH_SR_WRPERR K) s"

definition flash_clear_status_flags :: "flash_h \<Rightarrow> 'h machine \<Rightarrow> 'h st \<Rightarrow> 'h st" where
  "flash_clear_status_flags K H s =
     (let s = flash_clear_erserr_flag K H s;
          s = flash_clear_pgaerr_flag K H s;
          s = flash_clear_wrperr_flag K H s;
          s = flash_clear_pgperr_flag K H s
      in flash_clear_eop_flag K H s)"

definition flash_erase_all_sectors ::
  "flash_h \<Rightarrow> 'h machine \<Rightarrow> u32 \<Rightarrow> 'h st \<Rightarrow> 'h st option" where
  "flash_erase_all_sectors K H program_size s =
     do {
       s \<leftarrow> flash_wait_for_last_operation K H s;
       let s = flash_set_program_size K H program_size s;
       let s = reg_or_assign H FLASH_CR (FLASH_CR_MER K) s;
       let s = reg_or_assign H FLASH_CR (FLASH_CR_STRT K) s;
       s \<leftarrow> flash_wait_for_last_operation K H s;
       Some (reg_and_assign H FLASH_CR (NOT (FLASH_CR_MER K)) s)
     }"

text \<open>
  The sector is a \<open>uint8_t\<close>; in \<^verbatim>\<open>(sector & FLASH_CR_SNB_MASK) << FLASH_CR_SNB_SHIFT\<close> it is
  promoted (zero-extended) before the mask and the shift.
\<close>

definition flash_erase_sector ::
  "flash_h \<Rightarrow> 'h machine \<Rightarrow> u8 \<Rightarrow> u32 \<Rightarrow> 'h st \<Rightarrow> 'h st option" where
  "flash_erase_sector K H sector program_size s =
     do {
       s \<leftarrow> flash_wait_for_last_operation K H s;
       let s = flash_set_program_size K H program_size s;
       let s = reg_and_assign H FLASH_CR
                 (NOT (push_bit (FLASH_CR_SNB_SHIFT K) (FLASH_CR_SNB_MASK K))) s;
       let s = reg_or_assign H FLASH_CR
                 (push_bit (FLASH_CR_SNB_SHIFT K) (ucast sector AND FLASH_CR_SNB_MASK K)) s;
       let s = reg_or_assign H FLASH_CR (FLASH_CR_SER K) s;
       let s = reg_or_assign H FLASH_CR (FLASH_CR_STRT K) s;
       s \<leftarrow> flash_wait_for_last_operation K H s;
       let s = reg_and_assign H FLASH_CR (NOT (FLASH_CR_SER K)) s;
       Some (reg_and_assign H FLASH_CR
               (NOT (push_bit (FLASH_CR_SNB_SHIFT K) (FLASH_CR_SNB_MASK K))) s)
     }"

definition flash_program_double_word ::
  "flash_h \<Rightarrow> 'h machine \<Rightarrow> u32 \<Rightarrow> u64 \<Rightarrow> 'h st \<Rightarrow> 'h st option" where
  "flash_program_double_word K H address data s =
     do {
       s \<leftarrow> flash_wait_for_last_operation K H s;
       let s = flash_set_program_size K H FLASH_CR_PROGRAM_X64 s;
       let s = reg_or_assign H FLASH_CR (FLASH_CR_PG K) s;
       let s = mmio H address (D64 data) s;
       s \<leftarrow> flash_wait_for_last_operation K H s;
       Some (reg_and_assign H FLASH_CR (NOT (FLASH_CR_PG K)) s)
     }"

definition flash_program_word ::
  "flash_h \<Rightarrow> 'h machine \<Rightarrow> u32 \<Rightarrow> u32 \<Rightarrow> 'h st \<Rightarrow> 'h st option" where
  "flash_program_word K H address data s =
     do {
       s \<leftarrow> flash_wait_for_last_operation K H s;
       let s = flash_set_program_size K H FLASH_CR_PROGRAM_X32 s;
       let s = reg_or_assign H FLASH_CR (FLASH_CR_PG K) s;
       let s = mmio H address (D32 data) s;
       s \<leftarrow> flash_wait_for_last_operation K H s;
       Some (reg_and_assign H FLASH_CR (NOT (FLASH_CR_PG K)) s)
     }"

definition flash_program_half_word ::
  "flash_h \<Rightarrow> 'h machine \<Rightarrow> u32 \<Rightarrow> u16 \<Rightarrow> 'h st \<Rightarrow> 'h st option" where
  "flash_program_half_word K H address data s =
     do {
       s \<leftarrow> flash_wait_for_last_operation K H s;
       let s = flash_set_program_size K H FLASH_CR_PROGRAM_X16 s;
       let s = reg_or_assign H FLASH_CR (FLASH_CR_PG K) s;
       let s = mmio H address (D16 data) s;
       s \<leftarrow> flash_wait_for_last_operation K H s;
       Some (reg_and_assign H FLASH_CR (NOT (FLASH_CR_PG K)) s)
     }"

definition flash_program_byte ::
  "flash_h \<Rightarrow> 'h machine \<Rightarrow> u32 \<Rightarrow> u8 \<Rightarrow> 'h st \<Rightarrow> 'h st option" where
  "flash_program_byte K H address data s =
     do {
       s \<leftarrow> flash_wait_for_last_operation K H s;
       let s = flash_set_program_size K H FLASH_CR_PROGRAM_X8 s;
       let s = reg_or_assign H FLASH_CR (FLASH_CR_PG K) s;
       let s = mmio H address (D8 data) s;
       s \<leftarrow> flash_wait_for_last_operation K H s;
       Some (reg_and_assign H FLASH_CR (NOT (FLASH_CR_PG K)) s)
     }"





subsection \<open>A host-side model of the controller\<close>

text \<open>
  Modelled from the spec: the register bank of section 8 (a host-side test environment
  must model the flash controller with a memory-mapped register bank), with the status
  flags of section 3: the five completion and error flags are write-one-to-clear, busy is
  read-only. The access-control, control and option-control registers hold what is written
  to them; the key registers read as zero. A store into the array and a rising strobe bit
  start an operation, during which the next \<open>sim_busy\<close> reads of the status register show
  the busy flag.
\<close>

record flash_sim =
  sim_acr :: u32
  sim_cr :: u32
  sim_sr :: u32
  sim_optcr :: u32
  sim_busy :: nat

fun sim_read :: "flash_h \<Rightarrow> reg \<Rightarrow> flash_sim \<Rightarrow> u32 \<times> flash_sim" where
  "sim_read K FLASH_ACR h = (sim_acr h, h)"
| "sim_read K FLASH_CR h = (sim_cr h, h)"
| "sim_read K FLASH_OPTCR h = (sim_optcr h, h)"
| "sim_read K FLASH_SR h =
     (if sim_busy h = 0 then (sim_sr h AND NOT (FLASH_SR_BSY K), h)
      else (sim_sr h OR FLASH_SR_BSY K, h\<lparr>sim_busy := sim_busy h - 1\<rparr>))"
| "sim_read K FLASH_KEYR h = (0, h)"
| "sim_read K FLASH_OPTKEYR h = (0, h)"

fun sim_write :: "flash_h \<Rightarrow> reg \<Rightarrow> u32 \<Rightarrow> flash_sim \<Rightarrow> flash_sim" where
  "sim_write K FLASH_ACR v h = h\<lparr>sim_acr := v\<rparr>"
| "sim_write K FLASH_CR v h =
     h\<lparr>sim_cr := v,
       sim_busy := (if v AND FLASH_CR_STRT K \<noteq> 0 \<and> sim_cr h AND FLASH_CR_STRT K = 0 then 2
                    else sim_busy h)\<rparr>"
| "sim_write K FLASH_OPTCR v h = h\<lparr>sim_optcr := v\<rparr>"
| "sim_write K FLASH_SR v h = h\<lparr>sim_sr := sim_sr h AND NOT v\<rparr>"
| "sim_write K FLASH_KEYR v h = h"
| "sim_write K FLASH_OPTKEYR v h = h"

definition sim :: "flash_h \<Rightarrow> flash_sim machine" where
  "sim K = \<lparr>reg_read = sim_read K, reg_write = sim_write K,
            mem_store = (\<lambda>a d h. h\<lparr>sim_busy := 1\<rparr>), barrier = (\<lambda>h. h)\<rparr>"

text \<open>The controller after reset: all registers zero, nothing in progress.\<close>

definition sim_reset :: flash_sim where
  "sim_reset = \<lparr>sim_acr = 0, sim_cr = 0, sim_sr = 0, sim_optcr = 0, sim_busy = 0\<rparr>"

definition start :: "'h \<Rightarrow> 'h st" where
  "start h = \<lparr>hw = h, trace = []\<rparr>"

subsection \<open>Shapes of traces\<close>

text \<open>The busy test of the polling loop, on a value read from the status register.\<close>

definition busy :: "flash_h \<Rightarrow> u32 \<Rightarrow> bool" where
  "busy K v \<longleftrightarrow> v AND FLASH_SR_BSY K = FLASH_SR_BSY K"

text \<open>
  A wait for idle: the barrier, then reads of the status register only, every one but the
  last showing busy, the last one not.
\<close>

definition wait_idle :: "flash_h \<Rightarrow> access list \<Rightarrow> bool" where
  "wait_idle K t \<longleftrightarrow>
     (\<exists>bs v. t = Dsb # map (Rd FLASH_SR) bs @ [Rd FLASH_SR v] \<and> list_all (busy K) bs \<and> \<not> busy K v)"


text \<open>The values written to register \<open>r\<close> in a trace, in order.\<close>

fun writes_to :: "reg \<Rightarrow> access list \<Rightarrow> u32 list" where
  "writes_to r [] = []"
| "writes_to r (Wr r' v # t) = (if r' = r then v # writes_to r t else writes_to r t)"
| "writes_to r (_ # t) = writes_to r t"

text \<open>
  A register of the machine latches: a read that directly follows a write returns the
  value written.
\<close>

definition latches :: "'h machine \<Rightarrow> reg \<Rightarrow> bool" where
  "latches H r \<longleftrightarrow> (\<forall>h v. fst (reg_read H r (reg_write H r v h)) = v)"

text \<open>The memory-mapped stores of a trace, in order.\<close>

definition stores :: "access list \<Rightarrow> access list" where
  "stores t = filter (\<lambda>e. case e of St a d \<Rightarrow> True | _ \<Rightarrow> False) t"


text \<open>
  The four fields of the control register that arm an operation: PG, SER, MER and the
  sector number.
\<close>

definition armed_fields :: "flash_h \<Rightarrow> u32" where
  "armed_fields K =
     FLASH_CR_PG K OR FLASH_CR_SER K OR FLASH_CR_MER K OR
     push_bit (FLASH_CR_SNB_SHIFT K) (FLASH_CR_SNB_MASK K)"

text \<open>
  A layout of the control register in which the four arming fields lie below the program
  size field, so that no program size shifted to its field reaches them, and apart from
  the strobe bit.
\<close>

definition fields_disjoint :: "flash_h \<Rightarrow> bool" where
  "fields_disjoint K \<longleftrightarrow>
     NOT (mask (FLASH_CR_PROGRAM_SHIFT K)) AND armed_fields K = 0 \<and>
     FLASH_CR_STRT K AND armed_fields K = 0"

text \<open>
  The control register of the machine is a memory cell with content \<open>cr\<close>: a read of it
  returns the content, a write to it replaces the content, and no other access changes it.
\<close>

definition cr_cell :: "'h machine \<Rightarrow> ('h \<Rightarrow> u32) \<Rightarrow> bool" where
  "cr_cell H cr \<longleftrightarrow>
     (\<forall>h. fst (reg_read H FLASH_CR h) = cr h) \<and>
     (\<forall>r h. cr (snd (reg_read H r h)) = cr h) \<and>
     (\<forall>r v h. cr (reg_write H r v h) = (if r = FLASH_CR then v else cr h)) \<and>
     (\<forall>a d h. cr (mem_store H a d h) = cr h) \<and>
     (\<forall>h. cr (barrier H h) = cr h)"

section \<open>Basic facts\<close>

lemma trace_wr [simp]: "trace (wr H r v s) = trace s @ [Wr r v]"
  by (simp add: wr_def)

lemma hw_wr [simp]: "hw (wr H r v s) = reg_write H r v (hw s)"
  by (simp add: wr_def)

lemma trace_mmio [simp]: "trace (mmio H a d s) = trace s @ [St a d]"
  by (simp add: mmio_def)

lemma trace_stall [simp]: "trace (flash_pipeline_stall H s) = trace s @ [Dsb]"
  by (simp add: flash_pipeline_stall_def)

lemma rd_eq: "rd H r s = (fst (reg_read H r (hw s)),
    \<lparr>hw = snd (reg_read H r (hw s)), trace = trace s @ [Rd r (fst (reg_read H r (hw s)))]\<rparr>)"
  by (simp add: rd_def split: prod.split)

lemma rd_trace: "rd H r s = (v, s') \<Longrightarrow> trace s' = trace s @ [Rd r v]"
  by (auto simp: rd_def split: prod.splits)

lemma trace_reg_or_assign:
  "trace (reg_or_assign H r x s) =
     trace s @ [Rd r (fst (reg_read H r (hw s))), Wr r (fst (reg_read H r (hw s)) OR x)]"
  by (simp add: reg_or_assign_def rd_eq)


lemma flash_wait_loop_trace:
  "flash_wait_loop K H s = Some s' \<Longrightarrow>
     \<exists>bs v. trace s' = trace s @ map (Rd FLASH_SR) bs @ [Rd FLASH_SR v] \<and>
            list_all (busy K) bs \<and> \<not> busy K v"
proof (induction rule: flash_wait_loop.raw_induct[rotated, consumes 1, case_names step])
  case (step loop K H s s')
  obtain v s1 where r: "rd H FLASH_SR s = (v, s1)"
    by fastforce
  then have t1: "trace s1 = trace s @ [Rd FLASH_SR v]"
    by (rule rd_trace)
  show ?case
  proof (cases "busy K v")
    case True
    with step(2) r have "loop K H s1 = Some s'"
      by (simp add: busy_def)
    from step(1)[OF this] obtain bs w where
      "trace s' = trace s1 @ map (Rd FLASH_SR) bs @ [Rd FLASH_SR w]"
      "list_all (busy K) bs" "\<not> busy K w"
      by blast
    with t1 True show ?thesis
      by (intro exI[of _ "v # bs"] exI[of _ w]) simp
  next
    case False
    with step(2) r have "s' = s1"
      by (simp add: busy_def)
    with t1 False show ?thesis
      by (intro exI[of _ "[]"] exI[of _ v]) simp
  qed
qed

lemma wait_trace:
  "flash_wait_for_last_operation K H s = Some s' \<Longrightarrow> \<exists>w. wait_idle K w \<and> trace s' = trace s @ w"
  unfolding flash_wait_for_last_operation_def Let_def wait_idle_def
  by (drule flash_wait_loop_trace) auto

lemma writes_to_append [simp]: "writes_to r (t @ u) = writes_to r t @ writes_to r u"
  by (induction r t rule: writes_to.induct) auto

lemma flash_set_ws_loop_trace:
  "flash_set_ws_loop K H ws s = Some s' \<Longrightarrow>
     \<exists>ps v. trace s' = trace s @ map (Rd FLASH_ACR) ps @ [Rd FLASH_ACR v] \<and>
            (\<forall>p \<in> set ps. p AND FLASH_ACR_LATENCY_MASK K \<noteq> ws) \<and>
            v AND FLASH_ACR_LATENCY_MASK K = ws"
proof (induction rule: flash_set_ws_loop.raw_induct[rotated, consumes 1, case_names step])
  case (step loop K H ws s s')
  obtain v s1 where r: "rd H FLASH_ACR s = (v, s1)"
    by fastforce
  then have t1: "trace s1 = trace s @ [Rd FLASH_ACR v]"
    by (rule rd_trace)
  show ?case
  proof (cases "v AND FLASH_ACR_LATENCY_MASK K = ws")
    case False
    with step(2) r have "loop K H ws s1 = Some s'"
      by simp
    from step(1)[OF this] obtain ps w where
      "trace s' = trace s1 @ map (Rd FLASH_ACR) ps @ [Rd FLASH_ACR w]"
      "\<forall>p \<in> set ps. p AND FLASH_ACR_LATENCY_MASK K \<noteq> ws" "w AND FLASH_ACR_LATENCY_MASK K = ws"
      by blast
    with t1 False show ?thesis
      by (intro exI[of _ "v # ps"] exI[of _ w]) simp
  next
    case True
    with step(2) r have "s' = s1"
      by simp
    with t1 True show ?thesis
      by (intro exI[of _ "[]"] exI[of _ v]) simp
  qed
qed

lemma field_in_mask: "(v :: u32) AND m = ws \<Longrightarrow> ws AND NOT m = 0"
  by (auto simp: bit_eq_iff bit_and_iff bit_not_iff)

lemma rmw_keeps_rest: "(ws :: u32) AND NOT m = 0 \<Longrightarrow> ((r AND NOT m) OR ws) AND NOT m = r AND NOT m"
  by (auto simp: bit_eq_iff bit_and_iff bit_or_iff bit_not_iff)

lemma rmw_sets_field: "(ws :: u32) AND NOT m = 0 \<Longrightarrow> ((r AND NOT m) OR ws) AND m = ws"
  by (auto simp: bit_eq_iff bit_and_iff bit_or_iff bit_not_iff)

lemma flash_set_ws_shape:
  "flash_set_ws K H ws s = Some s' \<Longrightarrow>
     \<exists>reg32 ps v.
        trace s' = trace s @
          [Rd FLASH_ACR reg32, Wr FLASH_ACR ((reg32 AND NOT (FLASH_ACR_LATENCY_MASK K)) OR ws)] @
          map (Rd FLASH_ACR) ps @ [Rd FLASH_ACR v] \<and>
        ((reg32 AND NOT (FLASH_ACR_LATENCY_MASK K)) OR ws) AND NOT (FLASH_ACR_LATENCY_MASK K) =
          reg32 AND NOT (FLASH_ACR_LATENCY_MASK K) \<and>
        ((reg32 AND NOT (FLASH_ACR_LATENCY_MASK K)) OR ws) AND FLASH_ACR_LATENCY_MASK K = ws \<and>
        (\<forall>p \<in> set ps. p AND FLASH_ACR_LATENCY_MASK K \<noteq> ws) \<and>
        v AND FLASH_ACR_LATENCY_MASK K = ws"
proof -
  assume ret: "flash_set_ws K H ws s = Some s'"
  define reg32 where "reg32 = fst (reg_read H FLASH_ACR (hw s))"
  define s1 where "s1 = wr H FLASH_ACR ((reg32 AND NOT (FLASH_ACR_LATENCY_MASK K)) OR ws)
    (snd (rd H FLASH_ACR s))"
  have t1: "trace s1 = trace s @
      [Rd FLASH_ACR reg32, Wr FLASH_ACR ((reg32 AND NOT (FLASH_ACR_LATENCY_MASK K)) OR ws)]"
    by (simp add: s1_def reg32_def rd_eq)
  from ret have "flash_set_ws_loop K H ws s1 = Some s'"
    by (simp add: flash_set_ws_def s1_def reg32_def rd_eq Let_def)
  then obtain ps v where loop:
    "trace s' = trace s1 @ map (Rd FLASH_ACR) ps @ [Rd FLASH_ACR v]"
    "\<forall>p \<in> set ps. p AND FLASH_ACR_LATENCY_MASK K \<noteq> ws"
    "v AND FLASH_ACR_LATENCY_MASK K = ws"
    using flash_set_ws_loop_trace by blast
  from loop(3) have inm: "ws AND NOT (FLASH_ACR_LATENCY_MASK K) = 0"
    by (rule field_in_mask)
  show ?thesis
    using t1 loop rmw_keeps_rest[OF inm] rmw_sets_field[OF inm]
    by (intro exI[of _ reg32] exI[of _ ps] exI[of _ v]) simp
qed

lemma sim_latches: "r \<in> {FLASH_ACR, FLASH_CR, FLASH_OPTCR} \<Longrightarrow> latches (sim K) r"
  by (auto simp: latches_def sim_def)









lemma stores_append [simp]: "stores (t @ u) = stores t @ stores u"
  by (simp add: stores_def)

lemma stores_simps [simp]:
  "stores [] = []"
  "stores (Dsb # t) = stores t"
  "stores (Rd r v # t) = stores t"
  "stores (Wr r v # t) = stores t"
  "stores (St a d # t) = St a d # stores t"
  by (simp_all add: stores_def)

lemma stores_map_Rd [simp]: "stores (map (Rd r) bs) = []"
  by (induction bs) simp_all



lemma trace_start [simp]: "trace (start h) = []"
  by (simp add: start_def)











lemma writes_to_map_Rd [simp]: "writes_to r (map (Rd r') bs) = []"
  by (induction bs) simp_all





lemma hw_reg_and_assign:
  "hw (reg_and_assign H r x s) =
     reg_write H r (fst (reg_read H r (hw s)) AND x) (snd (reg_read H r (hw s)))"
  by (simp add: reg_and_assign_def rd_eq)

lemma and_not_and: "((c :: u32) AND NOT m) AND m = 0"
  by (auto simp: bit_eq_iff bit_and_iff bit_not_iff)

lemma and_not_and2: "(((c :: u32) AND NOT m) AND NOT n) AND m = 0"
  by (auto simp: bit_eq_iff bit_and_iff bit_not_iff)

lemma cleared_reads_zero:
  "latches H r \<Longrightarrow> fst (reg_read H r (hw (reg_and_assign H r (NOT m) s))) AND m = 0"
  by (simp add: hw_reg_and_assign latches_def and_not_and)

lemma cleared_twice_reads_zero:
  "latches H r \<Longrightarrow>
     fst (reg_read H r (hw (reg_and_assign H r (NOT n) (reg_and_assign H r (NOT m) s)))) AND m = 0"
  by (simp add: hw_reg_and_assign latches_def and_not_and2)

lemma own_bits_cleared:
  "latches H FLASH_CR \<Longrightarrow>
   (flash_erase_all_sectors K H psize s = Some s' \<longrightarrow>
      fst (reg_read H FLASH_CR (hw s')) AND FLASH_CR_MER K = 0) \<and>
   (flash_erase_sector K H sector psize s = Some s' \<longrightarrow>
      fst (reg_read H FLASH_CR (hw s')) AND FLASH_CR_SER K = 0 \<and>
      fst (reg_read H FLASH_CR (hw s')) AND
        push_bit (FLASH_CR_SNB_SHIFT K) (FLASH_CR_SNB_MASK K) = 0) \<and>
   (flash_program_byte K H a d8 s = Some s' \<longrightarrow>
      fst (reg_read H FLASH_CR (hw s')) AND FLASH_CR_PG K = 0) \<and>
   (flash_program_half_word K H a d16 s = Some s' \<longrightarrow>
      fst (reg_read H FLASH_CR (hw s')) AND FLASH_CR_PG K = 0) \<and>
   (flash_program_word K H a d32 s = Some s' \<longrightarrow>
      fst (reg_read H FLASH_CR (hw s')) AND FLASH_CR_PG K = 0) \<and>
   (flash_program_double_word K H a d64 s = Some s' \<longrightarrow>
      fst (reg_read H FLASH_CR (hw s')) AND FLASH_CR_PG K = 0)"
  by (auto simp: flash_erase_all_sectors_def flash_erase_sector_def flash_program_byte_def
      flash_program_half_word_def flash_program_word_def flash_program_double_word_def
      Let_def bind_eq_Some_conv cleared_reads_zero cleared_twice_reads_zero)

lemma cr_cell_latches: "cr_cell H cr \<Longrightarrow> latches H FLASH_CR"
  by (simp add: cr_cell_def latches_def)

lemma cr_rd: "cr_cell H cr \<Longrightarrow> cr (hw (snd (rd H r s))) = cr (hw s)"
  by (simp add: cr_cell_def rd_eq)

lemma cr_wait_loop:
  "flash_wait_loop K H s = Some s' \<Longrightarrow> cr_cell H cr \<Longrightarrow> cr (hw s') = cr (hw s)"
proof (induction rule: flash_wait_loop.raw_induct[rotated, consumes 1, case_names step])
  case (step loop K H s s')
  from step(2) have "loop K H (snd (rd H FLASH_SR s)) = Some s' \<or> s' = snd (rd H FLASH_SR s)"
    by (auto simp: rd_eq split: if_splits)
  then show ?case
    using step(1) step(3) cr_rd[OF step(3), of FLASH_SR s] by auto
qed

lemma cr_wait:
  "flash_wait_for_last_operation K H s = Some s' \<Longrightarrow> cr_cell H cr \<Longrightarrow> cr (hw s') = cr (hw s)"
  unfolding flash_wait_for_last_operation_def Let_def
  by (drule cr_wait_loop, assumption) (simp add: flash_pipeline_stall_def cr_cell_def)

lemma cr_or_assign:
  "cr_cell H cr \<Longrightarrow> cr (hw (reg_or_assign H FLASH_CR x s)) = cr (hw s) OR x"
  by (simp add: reg_or_assign_def rd_eq cr_cell_def)

lemma cr_and_assign:
  "cr_cell H cr \<Longrightarrow> cr (hw (reg_and_assign H FLASH_CR x s)) = cr (hw s) AND x"
  by (simp add: reg_and_assign_def rd_eq cr_cell_def)

lemma cr_mmio: "cr_cell H cr \<Longrightarrow> cr (hw (mmio H a d s)) = cr (hw s)"
  by (simp add: mmio_def cr_cell_def)

lemma cr_set_program_size:
  "cr_cell H cr \<Longrightarrow> cr (hw (flash_set_program_size K H x s)) =
     (cr (hw s) AND NOT (push_bit (FLASH_CR_PROGRAM_SHIFT K) (FLASH_CR_PROGRAM_MASK K))) OR
     push_bit (FLASH_CR_PROGRAM_SHIFT K) x"
  by (simp add: flash_set_program_size_def Let_def cr_or_assign cr_and_assign)

lemma push_bit_within: "NOT (mask n) AND (F :: u32) = 0 \<Longrightarrow> push_bit n x AND F = 0"
  by (auto simp: bit_eq_iff bit_and_iff bit_not_iff bit_mask_iff bit_push_bit_iff)

lemma and_and_not: "((x :: u32) AND m) AND NOT m = 0"
  by (auto simp: bit_eq_iff bit_and_iff bit_not_iff)

lemma clean_program:
  fixes c P G F psf :: u32
  assumes "c AND F = 0" "P AND F = 0"
  shows "((((c AND NOT psf) OR P) OR G) AND NOT G) AND F = 0"
  using assms by (auto simp: bit_eq_iff bit_and_iff bit_or_iff bit_not_iff)

lemma clean_erase_all:
  fixes c P M S F psf :: u32
  assumes "c AND F = 0" "P AND F = 0" "S AND F = 0"
  shows "(((((c AND NOT psf) OR P) OR M) OR S) AND NOT M) AND F = 0"
  using assms by (auto simp: bit_eq_iff bit_and_iff bit_or_iff bit_not_iff)

lemma clean_erase_sector:
  fixes c P N E S F psf nf :: u32
  assumes "c AND F = 0" "P AND F = 0" "S AND F = 0" "N AND NOT nf = 0"
  shows "((((((((c AND NOT psf) OR P) AND NOT nf) OR N) OR E) OR S) AND NOT E) AND NOT nf)
    AND F = 0"
  using assms by (auto simp: bit_eq_iff bit_and_iff bit_or_iff bit_not_iff)

lemma clean_after:
  assumes c: "cr_cell H cr" and d: "fields_disjoint K"
    and z: "cr (hw s) AND armed_fields K = 0"
    and ret: "flash_erase_all_sectors K H psize s = Some s' \<or>
      flash_erase_sector K H sector psize s = Some s' \<or>
      flash_program_byte K H a d8 s = Some s' \<or>
      flash_program_half_word K H a d16 s = Some s' \<or>
      flash_program_word K H a d32 s = Some s' \<or>
      flash_program_double_word K H a d64 s = Some s'"
  shows "cr (hw s') AND armed_fields K = 0"
proof -
  from d have p: "push_bit (FLASH_CR_PROGRAM_SHIFT K) x AND armed_fields K = 0" for x
    by (simp add: fields_disjoint_def push_bit_within)
  from d have st: "FLASH_CR_STRT K AND armed_fields K = 0"
    by (simp add: fields_disjoint_def)
  note cr = cr_wait[where cr = cr, OF _ c] cr_or_assign[OF c] cr_and_assign[OF c] cr_mmio[OF c]
    cr_set_program_size[OF c]
  from ret show ?thesis
  proof (elim disjE)
    assume "flash_erase_all_sectors K H psize s = Some s'"
    then show ?thesis
      by (auto simp: flash_erase_all_sectors_def Let_def bind_eq_Some_conv cr
          intro!: clean_erase_all z p st)
  next
    assume "flash_erase_sector K H sector psize s = Some s'"
    then show ?thesis
      by (auto simp: flash_erase_sector_def Let_def bind_eq_Some_conv cr
          intro!: clean_erase_sector z p st and_and_not)
  next
    assume "flash_program_byte K H a d8 s = Some s'"
    then show ?thesis
      by (auto simp: flash_program_byte_def Let_def bind_eq_Some_conv cr
          intro!: clean_program z p)
  next
    assume "flash_program_half_word K H a d16 s = Some s'"
    then show ?thesis
      by (auto simp: flash_program_half_word_def Let_def bind_eq_Some_conv cr
          intro!: clean_program z p)
  next
    assume "flash_program_word K H a d32 s = Some s'"
    then show ?thesis
      by (auto simp: flash_program_word_def Let_def bind_eq_Some_conv cr
          intro!: clean_program z p)
  next
    assume "flash_program_double_word K H a d64 s = Some s'"
    then show ?thesis
      by (auto simp: flash_program_double_word_def Let_def bind_eq_Some_conv cr
          intro!: clean_program z p)
  qed
qed

lemma sim_cr_cell: "cr_cell (sim K) sim_cr"
proof -
  have "sim_cr (snd (sim_read K r h)) = sim_cr h" for r h
    by (cases r) simp_all
  moreover have "sim_cr (sim_write K r v h) = (if r = FLASH_CR then v else sim_cr h)" for r v h
    by (cases r) simp_all
  ultimately show ?thesis
    by (simp add: cr_cell_def sim_def)
qed

lemma stm32f7_fields_disjoint: "fields_disjoint stm32f7"
  by code_simp


section \<open>The claims\<close>



text \<open>
  C2 as amended. On a control register that latches, when an erase or program operation
  has returned, the bits that the operation itself set read as zero, whatever the control
  register held before and whatever the status flags say: MER after
  \<open>flash_erase_all_sectors\<close>; SER and the sector-number field after \<open>flash_erase_sector\<close>; PG
  after each program primitive. On a control register that is a memory cell, with the four
  arming fields apart from the program size field and the strobe bit, an operation started
  with the four fields zero returns with the four fields zero.
\<close>

theorem control_register_after_operation:
  "(latches H FLASH_CR \<longrightarrow>
      (flash_erase_all_sectors K H psize s = Some s' \<longrightarrow>
         fst (reg_read H FLASH_CR (hw s')) AND FLASH_CR_MER K = 0) \<and>
      (flash_erase_sector K H sector psize s = Some s' \<longrightarrow>
         fst (reg_read H FLASH_CR (hw s')) AND FLASH_CR_SER K = 0 \<and>
         fst (reg_read H FLASH_CR (hw s')) AND
           push_bit (FLASH_CR_SNB_SHIFT K) (FLASH_CR_SNB_MASK K) = 0) \<and>
      (flash_program_byte K H a d8 s = Some s' \<longrightarrow>
         fst (reg_read H FLASH_CR (hw s')) AND FLASH_CR_PG K = 0) \<and>
      (flash_program_half_word K H a d16 s = Some s' \<longrightarrow>
         fst (reg_read H FLASH_CR (hw s')) AND FLASH_CR_PG K = 0) \<and>
      (flash_program_word K H a d32 s = Some s' \<longrightarrow>
         fst (reg_read H FLASH_CR (hw s')) AND FLASH_CR_PG K = 0) \<and>
      (flash_program_double_word K H a d64 s = Some s' \<longrightarrow>
         fst (reg_read H FLASH_CR (hw s')) AND FLASH_CR_PG K = 0)) \<and>
   (cr_cell H cr \<and> fields_disjoint K \<and> cr (hw s) AND armed_fields K = 0 \<and>
      (flash_erase_all_sectors K H psize s = Some s' \<or>
       flash_erase_sector K H sector psize s = Some s' \<or>
       flash_program_byte K H a d8 s = Some s' \<or>
       flash_program_half_word K H a d16 s = Some s' \<or>
       flash_program_word K H a d32 s = Some s' \<or>
       flash_program_double_word K H a d64 s = Some s') \<longrightarrow>
      fst (reg_read H FLASH_CR (hw s')) AND armed_fields K = 0)"
proof (intro conjI impI)
  assume "cr_cell H cr \<and> fields_disjoint K \<and> cr (hw s) AND armed_fields K = 0 \<and>
      (flash_erase_all_sectors K H psize s = Some s' \<or>
       flash_erase_sector K H sector psize s = Some s' \<or>
       flash_program_byte K H a d8 s = Some s' \<or>
       flash_program_half_word K H a d16 s = Some s' \<or>
       flash_program_word K H a d32 s = Some s' \<or>
       flash_program_double_word K H a d64 s = Some s')"
  then have "cr (hw s') AND armed_fields K = 0" and "cr_cell H cr"
    using clean_after[of H cr K s psize s' sector a d8 d16 d32 d64] by blast+
  then show "fst (reg_read H FLASH_CR (hw s')) AND armed_fields K = 0"
    by (simp add: cr_cell_def)
qed (use own_bits_cleared in blast)+

text \<open>
  C2 as amended, at one call of each operation on the simulated controller, started with
  the low eight bits of the control register set, and one started with only the program
  size field set.
\<close>

theorem control_register_after_operation_witness:
  "latches (sim stm32f7) FLASH_CR \<and> cr_cell (sim stm32f7) sim_cr \<and> fields_disjoint stm32f7 \<and>
   sim_cr (hw (start (sim_reset\<lparr>sim_cr := 0x300\<rparr>))) AND armed_fields stm32f7 = 0 \<and>
   (\<exists>s'. flash_erase_all_sectors stm32f7 (sim stm32f7) 2
        (start (sim_reset\<lparr>sim_cr := 0xFF\<rparr>)) = Some s' \<and>
      fst (reg_read (sim stm32f7) FLASH_CR (hw s')) AND FLASH_CR_MER stm32f7 = 0) \<and>
   (\<exists>s'. flash_erase_sector stm32f7 (sim stm32f7) 3 2
        (start (sim_reset\<lparr>sim_cr := 0xFF\<rparr>)) = Some s' \<and>
      fst (reg_read (sim stm32f7) FLASH_CR (hw s')) AND FLASH_CR_SER stm32f7 = 0 \<and>
      fst (reg_read (sim stm32f7) FLASH_CR (hw s')) AND
        push_bit (FLASH_CR_SNB_SHIFT stm32f7) (FLASH_CR_SNB_MASK stm32f7) = 0) \<and>
   (\<exists>s'. flash_program_byte stm32f7 (sim stm32f7) 0x08010000 0xEF
        (start (sim_reset\<lparr>sim_cr := 0xFF\<rparr>)) = Some s' \<and>
      fst (reg_read (sim stm32f7) FLASH_CR (hw s')) AND FLASH_CR_PG stm32f7 = 0) \<and>
   (\<exists>s'. flash_program_half_word stm32f7 (sim stm32f7) 0x08010000 0xBEEF
        (start (sim_reset\<lparr>sim_cr := 0xFF\<rparr>)) = Some s' \<and>
      fst (reg_read (sim stm32f7) FLASH_CR (hw s')) AND FLASH_CR_PG stm32f7 = 0) \<and>
   (\<exists>s'. flash_program_word stm32f7 (sim stm32f7) 0x08010000 0xDEADBEEF
        (start (sim_reset\<lparr>sim_cr := 0xFF\<rparr>)) = Some s' \<and>
      fst (reg_read (sim stm32f7) FLASH_CR (hw s')) AND FLASH_CR_PG stm32f7 = 0) \<and>
   (\<exists>s'. flash_program_double_word stm32f7 (sim stm32f7) 0x08010000 0x0123456789ABCDEF
        (start (sim_reset\<lparr>sim_cr := 0xFF\<rparr>)) = Some s' \<and>
      fst (reg_read (sim stm32f7) FLASH_CR (hw s')) AND FLASH_CR_PG stm32f7 = 0) \<and>
   (\<exists>s'. flash_erase_all_sectors stm32f7 (sim stm32f7) 2
        (start (sim_reset\<lparr>sim_cr := 0x300\<rparr>)) = Some s' \<and>
      fst (reg_read (sim stm32f7) FLASH_CR (hw s')) AND armed_fields stm32f7 = 0) \<and>
   (\<exists>s'. flash_erase_sector stm32f7 (sim stm32f7) 3 2
        (start (sim_reset\<lparr>sim_cr := 0x300\<rparr>)) = Some s' \<and>
      fst (reg_read (sim stm32f7) FLASH_CR (hw s')) AND armed_fields stm32f7 = 0) \<and>
   (\<exists>s'. flash_program_byte stm32f7 (sim stm32f7) 0x08010000 0xEF
        (start (sim_reset\<lparr>sim_cr := 0x300\<rparr>)) = Some s' \<and>
      fst (reg_read (sim stm32f7) FLASH_CR (hw s')) AND armed_fields stm32f7 = 0) \<and>
   (\<exists>s'. flash_program_half_word stm32f7 (sim stm32f7) 0x08010000 0xBEEF
        (start (sim_reset\<lparr>sim_cr := 0x300\<rparr>)) = Some s' \<and>
      fst (reg_read (sim stm32f7) FLASH_CR (hw s')) AND armed_fields stm32f7 = 0) \<and>
   (\<exists>s'. flash_program_word stm32f7 (sim stm32f7) 0x08010000 0xDEADBEEF
        (start (sim_reset\<lparr>sim_cr := 0x300\<rparr>)) = Some s' \<and>
      fst (reg_read (sim stm32f7) FLASH_CR (hw s')) AND armed_fields stm32f7 = 0) \<and>
   (\<exists>s'. flash_program_double_word stm32f7 (sim stm32f7) 0x08010000 0x0123456789ABCDEF
        (start (sim_reset\<lparr>sim_cr := 0x300\<rparr>)) = Some s' \<and>
      fst (reg_read (sim stm32f7) FLASH_CR (hw s')) AND armed_fields stm32f7 = 0)"
proof -
  have l: "latches (sim stm32f7) FLASH_CR"
    by (simp add: sim_latches)
  have c: "cr_cell (sim stm32f7) sim_cr"
    by (rule sim_cr_cell)
  have d: "fields_disjoint stm32f7"
    by (rule stm32f7_fields_disjoint)
  have z: "sim_cr (hw (start (sim_reset\<lparr>sim_cr := 0x300\<rparr>))) AND armed_fields stm32f7 = 0"
    by code_simp
  note A = control_register_after_operation[where H = "sim stm32f7" and K = stm32f7,
      THEN conjunct1, rule_format, OF l]
  note B = control_register_after_operation[where H = "sim stm32f7" and K = stm32f7
      and cr = sim_cr and s = "start (sim_reset\<lparr>sim_cr := 0x300\<rparr>)" and psize = 2
      and sector = 3 and a = "0x08010000" and ?d8.0 = "0xEF" and ?d16.0 = "0xBEEF"
      and ?d32.0 = "0xDEADBEEF" and ?d64.0 = "0x0123456789ABCDEF",
      THEN conjunct2, rule_format]
  have "flash_erase_all_sectors stm32f7 (sim stm32f7) 2
      (start (sim_reset\<lparr>sim_cr := 0xFF\<rparr>)) \<noteq> None"
    by code_simp
  then obtain a0 where a0: "flash_erase_all_sectors stm32f7 (sim stm32f7) 2
      (start (sim_reset\<lparr>sim_cr := 0xFF\<rparr>)) = Some a0"
    by blast
  have "flash_erase_all_sectors stm32f7 (sim stm32f7) 2
      (start (sim_reset\<lparr>sim_cr := 0x300\<rparr>)) \<noteq> None"
    by code_simp
  then obtain b0 where b0: "flash_erase_all_sectors stm32f7 (sim stm32f7) 2
      (start (sim_reset\<lparr>sim_cr := 0x300\<rparr>)) = Some b0"
    by blast
  have "flash_erase_sector stm32f7 (sim stm32f7) 3 2
      (start (sim_reset\<lparr>sim_cr := 0xFF\<rparr>)) \<noteq> None"
    by code_simp
  then obtain a1 where a1: "flash_erase_sector stm32f7 (sim stm32f7) 3 2
      (start (sim_reset\<lparr>sim_cr := 0xFF\<rparr>)) = Some a1"
    by blast
  have "flash_erase_sector stm32f7 (sim stm32f7) 3 2
      (start (sim_reset\<lparr>sim_cr := 0x300\<rparr>)) \<noteq> None"
    by code_simp
  then obtain b1 where b1: "flash_erase_sector stm32f7 (sim stm32f7) 3 2
      (start (sim_reset\<lparr>sim_cr := 0x300\<rparr>)) = Some b1"
    by blast
  have "flash_program_byte stm32f7 (sim stm32f7) 0x08010000 0xEF
      (start (sim_reset\<lparr>sim_cr := 0xFF\<rparr>)) \<noteq> None"
    by code_simp
  then obtain a2 where a2: "flash_program_byte stm32f7 (sim stm32f7) 0x08010000 0xEF
      (start (sim_reset\<lparr>sim_cr := 0xFF\<rparr>)) = Some a2"
    by blast
  have "flash_program_byte stm32f7 (sim stm32f7) 0x08010000 0xEF
      (start (sim_reset\<lparr>sim_cr := 0x300\<rparr>)) \<noteq> None"
    by code_simp
  then obtain b2 where b2: "flash_program_byte stm32f7 (sim stm32f7) 0x08010000 0xEF
      (start (sim_reset\<lparr>sim_cr := 0x300\<rparr>)) = Some b2"
    by blast
  have "flash_program_half_word stm32f7 (sim stm32f7) 0x08010000 0xBEEF
      (start (sim_reset\<lparr>sim_cr := 0xFF\<rparr>)) \<noteq> None"
    by code_simp
  then obtain a3 where a3: "flash_program_half_word stm32f7 (sim stm32f7) 0x08010000 0xBEEF
      (start (sim_reset\<lparr>sim_cr := 0xFF\<rparr>)) = Some a3"
    by blast
  have "flash_program_half_word stm32f7 (sim stm32f7) 0x08010000 0xBEEF
      (start (sim_reset\<lparr>sim_cr := 0x300\<rparr>)) \<noteq> None"
    by code_simp
  then obtain b3 where b3: "flash_program_half_word stm32f7 (sim stm32f7) 0x08010000 0xBEEF
      (start (sim_reset\<lparr>sim_cr := 0x300\<rparr>)) = Some b3"
    by blast
  have "flash_program_word stm32f7 (sim stm32f7) 0x08010000 0xDEADBEEF
      (start (sim_reset\<lparr>sim_cr := 0xFF\<rparr>)) \<noteq> None"
    by code_simp
  then obtain a4 where a4: "flash_program_word stm32f7 (sim stm32f7) 0x08010000 0xDEADBEEF
      (start (sim_reset\<lparr>sim_cr := 0xFF\<rparr>)) = Some a4"
    by blast
  have "flash_program_word stm32f7 (sim stm32f7) 0x08010000 0xDEADBEEF
      (start (sim_reset\<lparr>sim_cr := 0x300\<rparr>)) \<noteq> None"
    by code_simp
  then obtain b4 where b4: "flash_program_word stm32f7 (sim stm32f7) 0x08010000 0xDEADBEEF
      (start (sim_reset\<lparr>sim_cr := 0x300\<rparr>)) = Some b4"
    by blast
  have "flash_program_double_word stm32f7 (sim stm32f7) 0x08010000 0x0123456789ABCDEF
      (start (sim_reset\<lparr>sim_cr := 0xFF\<rparr>)) \<noteq> None"
    by code_simp
  then obtain a5 where a5: "flash_program_double_word stm32f7 (sim stm32f7) 0x08010000 0x0123456789ABCDEF
      (start (sim_reset\<lparr>sim_cr := 0xFF\<rparr>)) = Some a5"
    by blast
  have "flash_program_double_word stm32f7 (sim stm32f7) 0x08010000 0x0123456789ABCDEF
      (start (sim_reset\<lparr>sim_cr := 0x300\<rparr>)) \<noteq> None"
    by code_simp
  then obtain b5 where b5: "flash_program_double_word stm32f7 (sim stm32f7) 0x08010000 0x0123456789ABCDEF
      (start (sim_reset\<lparr>sim_cr := 0x300\<rparr>)) = Some b5"
    by blast
  note A0 = A[THEN conjunct1, rule_format, OF a0]
  note A1 = A[THEN conjunct2, THEN conjunct1, rule_format, OF a1]
  note A2 = A[THEN conjunct2, THEN conjunct2, THEN conjunct1, rule_format, OF a2]
  note A3 = A[THEN conjunct2, THEN conjunct2, THEN conjunct2, THEN conjunct1, rule_format, OF a3]
  note A4 = A[THEN conjunct2, THEN conjunct2, THEN conjunct2, THEN conjunct2, THEN conjunct1, rule_format, OF a4]
  note A5 = A[THEN conjunct2, THEN conjunct2, THEN conjunct2, THEN conjunct2, THEN conjunct2, rule_format, OF a5]
  have B0: "fst (reg_read (sim stm32f7) FLASH_CR (hw b0)) AND armed_fields stm32f7 = 0"
    by (rule B) (simp add: c d z b0)
  have B1: "fst (reg_read (sim stm32f7) FLASH_CR (hw b1)) AND armed_fields stm32f7 = 0"
    by (rule B) (simp add: c d z b1)
  have B2: "fst (reg_read (sim stm32f7) FLASH_CR (hw b2)) AND armed_fields stm32f7 = 0"
    by (rule B) (simp add: c d z b2)
  have B3: "fst (reg_read (sim stm32f7) FLASH_CR (hw b3)) AND armed_fields stm32f7 = 0"
    by (rule B) (simp add: c d z b3)
  have B4: "fst (reg_read (sim stm32f7) FLASH_CR (hw b4)) AND armed_fields stm32f7 = 0"
    by (rule B) (simp add: c d z b4)
  have B5: "fst (reg_read (sim stm32f7) FLASH_CR (hw b5)) AND armed_fields stm32f7 = 0"
    by (rule B) (simp add: c d z b5)
  show ?thesis
    using l c d z a0 a1 a2 a3 a4 a5 b0 b1 b2 b3 b4 b5 A0 A1 A2 A3 A4 A5 B0 B1 B2 B3 B4 B5
    by simp
qed

text \<open>
  C2 as stated fails: started with SER, MER and sector number 31 in the control register,
  \<open>flash_program_byte\<close> returns with all of them still there.
\<close>

theorem control_register_not_clean_counterexample:
  "\<exists>s'. flash_program_byte stm32f7 (sim stm32f7) 0x08010000 0xEF
          (start (sim_reset\<lparr>sim_cr := 0xFE\<rparr>)) = Some s' \<and>
        fst (reg_read (sim stm32f7) FLASH_CR (hw s')) = 0xFE \<and>
        (0xFE :: u32) AND FLASH_CR_SER stm32f7 = FLASH_CR_SER stm32f7 \<and>
        (0xFE :: u32) AND FLASH_CR_MER stm32f7 = FLASH_CR_MER stm32f7 \<and>
        (0xFE :: u32) AND push_bit (FLASH_CR_SNB_SHIFT stm32f7) (FLASH_CR_SNB_MASK stm32f7) =
          push_bit (FLASH_CR_SNB_SHIFT stm32f7) 31"
proof -
  have "flash_program_byte stm32f7 (sim stm32f7) 0x08010000 0xEF
          (start (sim_reset\<lparr>sim_cr := 0xFE\<rparr>)) =
    Some \<lparr>hw = sim_reset\<lparr>sim_cr := 0xFE\<rparr>, trace =
      [Dsb, Rd FLASH_SR 0, Rd FLASH_CR 0xFE, Wr FLASH_CR 0xFE, Rd FLASH_CR 0xFE,
       Wr FLASH_CR 0xFE, Rd FLASH_CR 0xFE, Wr FLASH_CR 0xFF, St 0x08010000 (D8 0xEF), Dsb,
       Rd FLASH_SR 0x10000, Rd FLASH_SR 0, Rd FLASH_CR 0xFF, Wr FLASH_CR 0xFE]\<rparr>"
    by code_simp
  then show ?thesis
    by (simp add: sim_def sim_reset_def stm32f7_def)
qed

text \<open>
  C3. \<open>flash_unlock\<close> sets the lock bit of the control register and then writes
  \<open>0x45670123\<close> and \<open>0xCDEF89AB\<close> to the key register, in that order and with no access
  between them; these two are the only writes the key register receives from the call.
\<close>

theorem flash_unlock_key_sequence:
  "trace (flash_unlock K H s) =
     trace s @ [Rd FLASH_CR (fst (reg_read H FLASH_CR (hw s))),
                Wr FLASH_CR (fst (reg_read H FLASH_CR (hw s)) OR FLASH_CR_LOCK K),
                Wr FLASH_KEYR 0x45670123,
                Wr FLASH_KEYR 0xCDEF89AB] \<and>
   writes_to FLASH_KEYR (trace (flash_unlock K H s)) =
     writes_to FLASH_KEYR (trace s) @ [0x45670123, 0xCDEF89AB]"
  by (simp add: flash_unlock_def Let_def trace_reg_or_assign FLASH_KEYR_KEY1_def
      FLASH_KEYR_KEY2_def)

text \<open>
  C4 fails on the code. Each flag-clear function writes back the status value it read with
  its own flag or-ed in, so a flag that is pending at the read is written as one as well.
  On the simulated controller, whose flags are write-one-to-clear: with EOP and PGPERR
  pending, \<open>flash_clear_eop_flag\<close> clears PGPERR too; with all five flags pending, each of
  the other four functions clears all five.
\<close>

theorem flash_clear_flag_writes_back_pending:
  "trace (flash_clear_eop_flag K H s) = trace s @
     [Rd FLASH_SR (fst (reg_read H FLASH_SR (hw s))),
      Wr FLASH_SR (fst (reg_read H FLASH_SR (hw s)) OR FLASH_SR_EOP K)] \<and>
   trace (flash_clear_pgperr_flag K H s) = trace s @
     [Rd FLASH_SR (fst (reg_read H FLASH_SR (hw s))),
      Wr FLASH_SR (fst (reg_read H FLASH_SR (hw s)) OR FLASH_SR_PGPERR K)] \<and>
   trace (flash_clear_pgaerr_flag K H s) = trace s @
     [Rd FLASH_SR (fst (reg_read H FLASH_SR (hw s))),
      Wr FLASH_SR (fst (reg_read H FLASH_SR (hw s)) OR FLASH_SR_PGAERR K)] \<and>
   trace (flash_clear_wrperr_flag K H s) = trace s @
     [Rd FLASH_SR (fst (reg_read H FLASH_SR (hw s))),
      Wr FLASH_SR (fst (reg_read H FLASH_SR (hw s)) OR FLASH_SR_WRPERR K)] \<and>
   trace (flash_clear_erserr_flag K H s) = trace s @
     [Rd FLASH_SR (fst (reg_read H FLASH_SR (hw s))),
      Wr FLASH_SR (fst (reg_read H FLASH_SR (hw s)) OR FLASH_SR_ERSERR K)] \<and>
   flash_clear_eop_flag stm32f7 (sim stm32f7) (start (sim_reset\<lparr>sim_sr := 0x41\<rparr>)) =
     \<lparr>hw = sim_reset, trace = [Rd FLASH_SR 0x41, Wr FLASH_SR 0x41]\<rparr> \<and>
   flash_clear_pgperr_flag stm32f7 (sim stm32f7) (start (sim_reset\<lparr>sim_sr := 0xF1\<rparr>)) =
     \<lparr>hw = sim_reset, trace = [Rd FLASH_SR 0xF1, Wr FLASH_SR 0xF1]\<rparr> \<and>
   flash_clear_pgaerr_flag stm32f7 (sim stm32f7) (start (sim_reset\<lparr>sim_sr := 0xF1\<rparr>)) =
     \<lparr>hw = sim_reset, trace = [Rd FLASH_SR 0xF1, Wr FLASH_SR 0xF1]\<rparr> \<and>
   flash_clear_wrperr_flag stm32f7 (sim stm32f7) (start (sim_reset\<lparr>sim_sr := 0xF1\<rparr>)) =
     \<lparr>hw = sim_reset, trace = [Rd FLASH_SR 0xF1, Wr FLASH_SR 0xF1]\<rparr> \<and>
   flash_clear_erserr_flag stm32f7 (sim stm32f7) (start (sim_reset\<lparr>sim_sr := 0xF1\<rparr>)) =
     \<lparr>hw = sim_reset, trace = [Rd FLASH_SR 0xF1, Wr FLASH_SR 0xF1]\<rparr>"
proof -
  have "flash_clear_eop_flag stm32f7 (sim stm32f7) (start (sim_reset\<lparr>sim_sr := 0x41\<rparr>)) =
     \<lparr>hw = sim_reset, trace = [Rd FLASH_SR 0x41, Wr FLASH_SR 0x41]\<rparr>"
    by code_simp
  moreover
  have "flash_clear_pgperr_flag stm32f7 (sim stm32f7) (start (sim_reset\<lparr>sim_sr := 0xF1\<rparr>)) =
     \<lparr>hw = sim_reset, trace = [Rd FLASH_SR 0xF1, Wr FLASH_SR 0xF1]\<rparr>"
    by code_simp
  moreover
  have "flash_clear_pgaerr_flag stm32f7 (sim stm32f7) (start (sim_reset\<lparr>sim_sr := 0xF1\<rparr>)) =
     \<lparr>hw = sim_reset, trace = [Rd FLASH_SR 0xF1, Wr FLASH_SR 0xF1]\<rparr>"
    by code_simp
  moreover
  have "flash_clear_wrperr_flag stm32f7 (sim stm32f7) (start (sim_reset\<lparr>sim_sr := 0xF1\<rparr>)) =
     \<lparr>hw = sim_reset, trace = [Rd FLASH_SR 0xF1, Wr FLASH_SR 0xF1]\<rparr>"
    by code_simp
  moreover
  have "flash_clear_erserr_flag stm32f7 (sim stm32f7) (start (sim_reset\<lparr>sim_sr := 0xF1\<rparr>)) =
     \<lparr>hw = sim_reset, trace = [Rd FLASH_SR 0xF1, Wr FLASH_SR 0xF1]\<rparr>"
    by code_simp
  ultimately show ?thesis
    by (simp add: flash_clear_eop_flag_def flash_clear_pgperr_flag_def
        flash_clear_pgaerr_flag_def flash_clear_wrperr_flag_def flash_clear_erserr_flag_def
        trace_reg_or_assign)
qed











text \<open>
  C9. Every invocation of \<open>flash_wait_for_last_operation\<close> begins with the barrier and
  then reads the status register: the call is the polling loop run after the barrier. When
  it returns, the accesses it made are the barrier followed by reads of the status register
  only, each of them but the last showing the busy flag set, and the last showing it clear.
\<close>

theorem flash_wait_for_last_operation_barrier_then_poll:
  "flash_wait_for_last_operation K H s =
     (case rd H FLASH_SR (flash_pipeline_stall H s) of
        (v, s1) \<Rightarrow> if busy K v then flash_wait_loop K H s1 else Some s1) \<and>
   (flash_wait_for_last_operation K H s = Some s' \<longrightarrow>
     (\<exists>bs v. trace s' = trace s @ Dsb # map (Rd FLASH_SR) bs @ [Rd FLASH_SR v] \<and>
        (\<forall>b \<in> set bs. b AND FLASH_SR_BSY K = FLASH_SR_BSY K) \<and>
        v AND FLASH_SR_BSY K \<noteq> FLASH_SR_BSY K))"
proof (intro conjI impI)
  show "flash_wait_for_last_operation K H s =
     (case rd H FLASH_SR (flash_pipeline_stall H s) of
        (v, s1) \<Rightarrow> if busy K v then flash_wait_loop K H s1 else Some s1)"
    unfolding flash_wait_for_last_operation_def Let_def busy_def
    by (subst flash_wait_loop.simps) (rule refl)
next
  assume "flash_wait_for_last_operation K H s = Some s'"
  then obtain w where "wait_idle K w" "trace s' = trace s @ w"
    using wait_trace by blast
  then show "\<exists>bs v. trace s' = trace s @ Dsb # map (Rd FLASH_SR) bs @ [Rd FLASH_SR v] \<and>
        (\<forall>b \<in> set bs. b AND FLASH_SR_BSY K = FLASH_SR_BSY K) \<and>
        v AND FLASH_SR_BSY K \<noteq> FLASH_SR_BSY K"
    by (auto simp: wait_idle_def busy_def list_all_iff)
qed

text \<open>C9, at a run of the simulated controller that is busy for two polls.\<close>

theorem flash_wait_for_last_operation_witness:
  "flash_wait_for_last_operation stm32f7 (sim stm32f7) (start (sim_reset\<lparr>sim_busy := 2\<rparr>)) =
     Some \<lparr>hw = sim_reset,
           trace = [Dsb, Rd FLASH_SR 0x10000, Rd FLASH_SR 0x10000, Rd FLASH_SR 0]\<rparr> \<and>
   (\<exists>bs v. [Dsb, Rd FLASH_SR 0x10000, Rd FLASH_SR 0x10000, Rd FLASH_SR 0] =
        Dsb # map (Rd FLASH_SR) bs @ [Rd FLASH_SR v] \<and>
        (\<forall>b \<in> set bs. b AND 0x10000 = 0x10000) \<and> v AND 0x10000 \<noteq> (0x10000 :: u32))"
proof -
  have run: "flash_wait_for_last_operation stm32f7 (sim stm32f7)
      (start (sim_reset\<lparr>sim_busy := 2\<rparr>)) =
    Some \<lparr>hw = sim_reset,
          trace = [Dsb, Rd FLASH_SR 0x10000, Rd FLASH_SR 0x10000, Rd FLASH_SR 0]\<rparr>"
    by code_simp
  from flash_wait_for_last_operation_barrier_then_poll
         [of stm32f7 "sim stm32f7" "start (sim_reset\<lparr>sim_busy := 2\<rparr>)", THEN conjunct2, rule_format, OF run]
  show ?thesis
    using run by (simp add: start_def stm32f7_def)
qed

text \<open>
  C10. If \<open>ws\<close> has a bit outside the latency mask, no register value satisfies the exit
  test of the loop and \<open>flash_set_ws\<close> never returns, on any machine. If \<open>ws\<close> lies within
  the mask and the access-control register latches what is written to it, the call returns.
\<close>

theorem flash_set_ws_termination:
  "(ws AND NOT (FLASH_ACR_LATENCY_MASK K) \<noteq> 0 \<longrightarrow>
      (\<forall>v. v AND FLASH_ACR_LATENCY_MASK K \<noteq> ws) \<and> flash_set_ws K H ws s = None) \<and>
   (ws AND NOT (FLASH_ACR_LATENCY_MASK K) = 0 \<and> latches H FLASH_ACR \<longrightarrow>
      (\<exists>s'. flash_set_ws K H ws s = Some s'))"
proof (intro conjI impI allI)
  fix v
  assume "ws AND NOT (FLASH_ACR_LATENCY_MASK K) \<noteq> 0"
  then show "v AND FLASH_ACR_LATENCY_MASK K \<noteq> ws"
    using field_in_mask by blast
next
  assume out: "ws AND NOT (FLASH_ACR_LATENCY_MASK K) \<noteq> 0"
  show "flash_set_ws K H ws s = None"
  proof (cases "flash_set_ws K H ws s")
    case (Some s')
    from flash_set_ws_shape[OF this] obtain v where "v AND FLASH_ACR_LATENCY_MASK K = ws"
      by blast
    with out show ?thesis
      using field_in_mask by blast
  qed simp
next
  assume "ws AND NOT (FLASH_ACR_LATENCY_MASK K) = 0 \<and> latches H FLASH_ACR"
  then have inm: "ws AND NOT (FLASH_ACR_LATENCY_MASK K) = 0" and l: "latches H FLASH_ACR"
    by simp_all
  show "\<exists>s'. flash_set_ws K H ws s = Some s'"
    unfolding flash_set_ws_def Let_def
    using l rmw_sets_field[OF inm]
    by (subst flash_set_ws_loop.simps) (simp add: rd_eq latches_def wr_def split: prod.split)
qed

text \<open>C10, at \<open>ws = 0x100\<close> (outside the mask) and \<open>ws = 7\<close> on the simulated controller.\<close>

theorem flash_set_ws_termination_witness:
  "(0x100 :: u32) AND NOT (FLASH_ACR_LATENCY_MASK stm32f7) \<noteq> 0 \<and>
   flash_set_ws stm32f7 (sim stm32f7) 0x100 (start sim_reset) = None \<and>
   (7 :: u32) AND NOT (FLASH_ACR_LATENCY_MASK stm32f7) = 0 \<and> latches (sim stm32f7) FLASH_ACR \<and>
   (\<exists>s'. flash_set_ws stm32f7 (sim stm32f7) 7 (start sim_reset) = Some s')"
proof -
  have out: "(0x100 :: u32) AND NOT (FLASH_ACR_LATENCY_MASK stm32f7) \<noteq> 0"
    by (simp add: stm32f7_def)
  have inm: "(7 :: u32) AND NOT (FLASH_ACR_LATENCY_MASK stm32f7) = 0"
    by (simp add: stm32f7_def)
  have l: "latches (sim stm32f7) FLASH_ACR"
    by (simp add: latches_def sim_def)
  from flash_set_ws_termination[of "0x100" stm32f7 "sim stm32f7" "start sim_reset"] out
  have "flash_set_ws stm32f7 (sim stm32f7) 0x100 (start sim_reset) = None"
    by blast
  moreover from flash_set_ws_termination[of 7 stm32f7 "sim stm32f7" "start sim_reset"] inm l
  have "\<exists>s'. flash_set_ws stm32f7 (sim stm32f7) 7 (start sim_reset) = Some s'"
    by blast
  ultimately show ?thesis
    using out inm l by blast
qed

end
